theory Spec2Isabelle
  imports Main
begin

section \<open>Python values\<close>

text \<open>
  The values that travel through \<^verbatim>\<open>toonapilib/helpers.py\<close> are JSON documents decoded
  by Python: \<^verbatim>\<open>None\<close>, booleans, integers, finite floats (mantissa and binary exponent),
  strings, lists and dicts. A dict is an association list read with \<open>map_of\<close>: the first
  binding of a key is the dict's value for it.
\<close>

datatype json =
    JNull
  | JBool bool
  | JInt int
  | JFloat int int
  | JStr string
  | JList "json list"
  | JObj "(string \<times> json) list"

text \<open>Python's truth test, as used by \<^verbatim>\<open>if x\<close>, \<^verbatim>\<open>not x\<close> and \<^verbatim>\<open>True if x else False\<close>.\<close>

fun truthy :: "json \<Rightarrow> bool" where
  "truthy JNull = False"
| "truthy (JBool b) = b"
| "truthy (JInt i) = (i \<noteq> 0)"
| "truthy (JFloat m e) = (m \<noteq> 0)"
| "truthy (JStr s) = (s \<noteq> [])"
| "truthy (JList xs) = (xs \<noteq> [])"
| "truthy (JObj kvs) = (kvs \<noteq> [])"

datatype error =
    AttributeError
  | TypeError
  | ValueError
  | RequestException

text \<open>\<^verbatim>\<open>x.get(k)\<close>: the value under \<open>k\<close>, \<^verbatim>\<open>None\<close> when the dict has no such key;
  AttributeError on anything that is not a dict.\<close>

fun py_get :: "json \<Rightarrow> string \<Rightarrow> error + json" where
  "py_get (JObj kvs) k = Inr (case map_of kvs k of None \<Rightarrow> JNull | Some v \<Rightarrow> v)"
| "py_get v k = Inl AttributeError"

text \<open>What a \<^verbatim>\<open>for item in x\<close> runs over: the elements of a list, the keys of a dict,
  the characters of a string; TypeError on a value that is not iterable.\<close>

fun py_iter :: "json \<Rightarrow> error + json list" where
  "py_iter (JList xs) = Inr xs"
| "py_iter (JObj kvs) = Inr (map (\<lambda>kv. JStr (fst kv)) kvs)"
| "py_iter (JStr s) = Inr (map (\<lambda>c. JStr [c]) s)"
| "py_iter v = Inl TypeError"

text \<open>\<^verbatim>\<open>d[k] = v\<close> on a dict: an existing key keeps its place, a new key goes last.\<close>

fun dict_set :: "string \<Rightarrow> json \<Rightarrow> (string \<times> json) list \<Rightarrow> (string \<times> json) list" where
  "dict_set k v [] = [(k, v)]"
| "dict_set k v (p # ps) = (if fst p = k then (k, v) # ps else p # dict_set k v ps)"

text \<open>\<^verbatim>\<open>data[k] = v\<close> on a decoded document: TypeError unless it is a dict (a list takes
  integer indices only, the other values no item assignment).\<close>

fun py_setitem :: "json \<Rightarrow> string \<Rightarrow> json \<Rightarrow> error + json" where
  "py_setitem (JObj kvs) k v = Inr (JObj (dict_set k v kvs))"
| "py_setitem d k v = Inl TypeError"

text \<open>The argument of \<^verbatim>\<open>_change_state\<close>: \<^verbatim>\<open>toggle\<close> passes the boolean
  \<^verbatim>\<open>not self.current_state\<close>, \<^verbatim>\<open>turn_on\<close> and \<^verbatim>\<open>turn_off\<close> the integers 1 and 0.\<close>

datatype state_arg = SBool bool | SInt int

fun py_int :: "state_arg \<Rightarrow> int" where
  "py_int (SBool b) = (if b then 1 else 0)"
| "py_int (SInt i) = i"

text \<open>Decimal digits of a natural number, for \<^verbatim>\<open>str.format\<close> on an integer.\<close>

fun digits :: "nat \<Rightarrow> string" where
  "digits n = (if n < 10 then [''0123456789'' ! n]
               else digits (n div 10) @ [''0123456789'' ! (n mod 10)])"

text \<open>What \<^verbatim>\<open>'{id}'.format(id=v)\<close> renders: a string as it is, \<^verbatim>\<open>None\<close>, a boolean
  and an integer in Python's spelling. The rendering of floats and containers is Python's
  \<^verbatim>\<open>repr\<close>, taken as the parameter \<open>rp\<close>.\<close>

fun py_format :: "(json \<Rightarrow> string) \<Rightarrow> json \<Rightarrow> string" where
  "py_format rp (JStr s) = s"
| "py_format rp JNull = ''None''"
| "py_format rp (JBool b) = (if b then ''True'' else ''False'')"
| "py_format rp (JInt i) = (if i < 0 then CHR ''-'' # digits (nat (- i)) else digits (nat i))"
| "py_format rp v = rp v"

section \<open>The session, the device and what they do to the world\<close>

type_synonym headers = "(string \<times> string) list"

text \<open>An HTTP request made through \<^verbatim>\<open>requests\<close>: the URL, the headers and, for a PUT,
  the document handed to \<^verbatim>\<open>json.dumps\<close> as its body.\<close>

datatype request =
    Get string headers
  | Put string headers json

text \<open>A response carries its status code and its body: \<open>Some d\<close> when the body is the
  JSON text of the document \<open>d\<close>, \<open>None\<close> when it is not JSON, where
  \<^verbatim>\<open>Response.json()\<close> raises a ValueError. \<open>NoReply\<close> is a request on which
  \<^verbatim>\<open>requests\<close> itself raises (no connection, timeout).\<close>

datatype response = Response (status_code: nat) (body: "json option")

datatype reply = NoReply | Reply response

type_synonym server = "request \<Rightarrow> reply"

datatype event =
    Lookup string bool
  | Http request
  | LogWarning string
  | LogDebug response
  | ClearCache

text \<open>
  One record holds what a device method can read and change: the session
  (\<^verbatim>\<open>toon.status\<close>, \<^verbatim>\<open>toon._api_url\<close>, \<^verbatim>\<open>toon._headers\<close>), the device's own
  attributes (\<^verbatim>\<open>_name\<close> and the memo attributes, \<^verbatim>\<open>None\<close> at construction;
  \<^verbatim>\<open>_usage_capable\<close> exists on a SmartPlug only), and the trace of every
  \<^verbatim>\<open>_get_value\<close> call, HTTP request, log record and \<^verbatim>\<open>_clear_cache\<close> call so far.
\<close>

record world =
  toon_status :: json
  toon_api_url :: string
  toon_headers :: headers
  dev_name :: string
  memo_device_type :: json
  memo_zwave_index :: json
  memo_zwave_uuid :: json
  memo_device_uuid :: json
  memo_usage_capable :: "bool option"
  trace :: "event list"

type_synonym 'a action = "world \<Rightarrow> (error + 'a) \<times> world"

definition emit :: "event \<Rightarrow> world \<Rightarrow> world" where
  "emit e w = w\<lparr>trace := trace w @ [e]\<rparr>"

definition ret :: "'a \<Rightarrow> 'a action" where
  "ret x w = (Inr x, w)"

definition and_then :: "'a action \<Rightarrow> ('a \<Rightarrow> 'b action) \<Rightarrow> 'b action" where
  "and_then m f w = (case m w of (Inl e, w') \<Rightarrow> (Inl e, w') | (Inr x, w') \<Rightarrow> f x w')"

definition lift :: "error + 'a \<Rightarrow> 'a action" where
  "lift r w = (r, w)"

section \<open>Switch\<close>

text \<open>The generator of \<^verbatim>\<open>_get_value\<close> under \<^verbatim>\<open>next(..., None)\<close>: the field of the first
  item whose \<^verbatim>\<open>name\<close> is the device's, \<^verbatim>\<open>None\<close> when the items run out. Items after
  the first match are never touched.\<close>

fun scan :: "string \<Rightarrow> string \<Rightarrow> json list \<Rightarrow> error + json" where
  "scan nm field [] = Inr JNull"
| "scan nm field (item # items) =
     (case py_get item ''name'' of
        Inl e \<Rightarrow> Inl e
      | Inr n \<Rightarrow> if n = JStr nm then py_get item field else scan nm field items)"

definition find_value :: "json \<Rightarrow> string \<Rightarrow> string \<Rightarrow> bool \<Rightarrow> error + json" where
  "find_value snapshot nm field config =
     (let key = (if config then ''deviceConfigInfo'' else ''deviceStatusInfo'') in
      case py_get snapshot key of
        Inl e \<Rightarrow> Inl e
      | Inr info \<Rightarrow>
          (case py_get info ''device'' of
             Inl e \<Rightarrow> Inl e
           | Inr devices \<Rightarrow>
               (case py_iter devices of
                  Inl e \<Rightarrow> Inl e
                | Inr items \<Rightarrow> scan nm field items)))"

definition get_value :: "string \<Rightarrow> bool \<Rightarrow> json action" where
  "get_value field config w =
     (find_value (toon_status w) (dev_name w) field config, emit (Lookup field config) w)"

definition is_connected :: "bool action" where
  "is_connected = and_then (get_value ''isConnected'' False) (\<lambda>v. ret (if truthy v then True else False))"

definition current_state :: "json action" where
  "current_state = get_value ''currentState'' False"

definition in_switch_all_group :: "bool action" where
  "in_switch_all_group =
     and_then (get_value ''inSwitchAll'' True) (\<lambda>v. ret (if truthy v then True else False))"

definition in_switch_schedule :: "bool action" where
  "in_switch_schedule =
     and_then (get_value ''inSwitchSchedule'' True) (\<lambda>v. ret (if truthy v then True else False))"

definition is_locked :: "bool action" where
  "is_locked = and_then (get_value ''switchLocked'' True) (\<lambda>v. ret (if truthy v then True else False))"

definition device_uuid :: "json action" where
  "device_uuid w =
     (if \<not> truthy (memo_device_uuid w)
      then (case get_value ''devUUID'' False w of
              (Inl e, w') \<Rightarrow> (Inl e, w')
            | (Inr v, w') \<Rightarrow> (Inr v, w'\<lparr>memo_device_uuid := v\<rparr>))
      else (Inr (memo_device_uuid w), w))"

definition device_type :: "json action" where
  "device_type w =
     (if \<not> truthy (memo_device_type w)
      then (case get_value ''devType'' True w of
              (Inl e, w') \<Rightarrow> (Inl e, w')
            | (Inr v, w') \<Rightarrow> (Inr v, w'\<lparr>memo_device_type := v\<rparr>))
      else (Inr (memo_device_type w), w))"

definition zwave_index :: "json action" where
  "zwave_index w =
     (if \<not> truthy (memo_zwave_index w)
      then (case get_value ''position'' True w of
              (Inl e, w') \<Rightarrow> (Inl e, w')
            | (Inr v, w') \<Rightarrow> (Inr v, w'\<lparr>memo_zwave_index := v\<rparr>))
      else (Inr (memo_zwave_index w), w))"

definition zwave_uuid :: "json action" where
  "zwave_uuid w =
     (if \<not> truthy (memo_zwave_uuid w)
      then (case get_value ''zwUuid'' True w of
              (Inl e, w') \<Rightarrow> (Inl e, w')
            | (Inr v, w') \<Rightarrow> (Inr v, w'\<lparr>memo_zwave_uuid := v\<rparr>))
      else (Inr (memo_zwave_uuid w), w))"

text \<open>\<^verbatim>\<open>False if not self.is_connected or self.is_locked else True\<close>: the \<^verbatim>\<open>or\<close> reads
  \<^verbatim>\<open>is_locked\<close> only when the device is connected.\<close>

definition can_toggle :: "bool action" where
  "can_toggle =
     and_then is_connected (\<lambda>c.
     and_then (if \<not> c then ret True else is_locked) (\<lambda>blocked.
     ret (if blocked then False else True)))"

definition status :: "string action" where
  "status = and_then current_state (\<lambda>v. ret (if truthy v then ''on'' else ''off''))"

text \<open>A call into \<^verbatim>\<open>requests\<close>: the request is recorded, then the server's reply decides
  between a response and an exception.\<close>

definition send :: "server \<Rightarrow> request \<Rightarrow> response action" where
  "send srv rq w =
     ((case srv rq of NoReply \<Rightarrow> Inl RequestException | Reply r \<Rightarrow> Inr r), emit (Http rq) w)"

definition response_json :: "response \<Rightarrow> error + json" where
  "response_json r = (case body r of None \<Rightarrow> Inl ValueError | Some d \<Rightarrow> Inr d)"

definition warning_text :: string where
  "warning_text = ''The item is not connected or locked, cannot change state.''"

definition change_state :: "server \<Rightarrow> (json \<Rightarrow> string) \<Rightarrow> state_arg \<Rightarrow> bool action" where
  "change_state srv rp state =
     and_then can_toggle (\<lambda>able.
       if \<not> able then (\<lambda>w. (Inr False, emit (LogWarning warning_text) w))
       else
         and_then device_uuid (\<lambda>uuid w.
           (let url = toon_api_url w @ ''/devices/'' @ py_format rp uuid in
            and_then (send srv (Get url (toon_headers w))) (\<lambda>got.
            and_then (lift (response_json got)) (\<lambda>data.
            and_then (lift (py_setitem data ''currentState'' (JInt (py_int state)))) (\<lambda>data'.
            and_then (send srv (Put url (toon_headers w) data')) (\<lambda>response w'.
              (Inr True, emit ClearCache (emit (LogDebug response) w')))))) w)))"

definition toggle :: "server \<Rightarrow> (json \<Rightarrow> string) \<Rightarrow> bool action" where
  "toggle srv rp = and_then current_state (\<lambda>v. change_state srv rp (SBool (\<not> truthy v)))"

definition turn_on :: "server \<Rightarrow> (json \<Rightarrow> string) \<Rightarrow> bool action" where
  "turn_on srv rp = change_state srv rp (SInt 1)"

definition turn_off :: "server \<Rightarrow> (json \<Rightarrow> string) \<Rightarrow> bool action" where
  "turn_off srv rp = change_state srv rp (SInt 0)"

section \<open>SmartPlug and Light\<close>

definition usage_capable :: "bool action" where
  "usage_capable w =
     (case memo_usage_capable w of
        None \<Rightarrow>
          (case get_value ''usageCapable'' True w of
             (Inl e, w') \<Rightarrow> (Inl e, w')
           | (Inr v, w') \<Rightarrow>
               (let b = (if truthy v then True else False)
                in (Inr b, w'\<lparr>memo_usage_capable := Some b\<rparr>)))
      | Some b \<Rightarrow> (Inr b, w))"

definition average_usage :: "json action" where
  "average_usage =
     and_then usage_capable (\<lambda>c. if c then get_value ''avgUsage'' False else ret (JInt 0))"

definition current_usage :: "json action" where
  "current_usage =
     and_then usage_capable (\<lambda>c. if c then get_value ''currentUsage'' False else ret (JInt 0))"

definition daily_usage :: "json action" where
  "daily_usage =
     and_then usage_capable (\<lambda>c. if c then get_value ''dayUsage'' False else ret (JInt 0))"

definition network_health_state :: "json action" where
  "network_health_state = get_value ''networkHealthState'' False"

definition quantity_graph_uuid :: "json action" where
  "quantity_graph_uuid = get_value ''quantityGraphUuid'' True"

definition flow_graph_uuid :: "json action" where
  "flow_graph_uuid = get_value ''flowGraphUuid'' True"

definition rgb_color :: "json action" where
  "rgb_color = get_value ''rgbColor'' False"

section \<open>Construction\<close>

text \<open>\<^verbatim>\<open>Switch.__init__\<close> and \<^verbatim>\<open>SmartPlug.__init__\<close>: every memo attribute starts as
  \<^verbatim>\<open>None\<close>; nothing has happened yet.\<close>

definition new_device :: "json \<Rightarrow> string \<Rightarrow> headers \<Rightarrow> string \<Rightarrow> world" where
  "new_device snapshot url hdrs nm =
     \<lparr>toon_status = snapshot, toon_api_url = url, toon_headers = hdrs, dev_name = nm,
      memo_device_type = JNull, memo_zwave_index = JNull, memo_zwave_uuid = JNull,
      memo_device_uuid = JNull, memo_usage_capable = None, trace = []\<rparr>"

section \<open>Reading the trace\<close>

fun request_of :: "event \<Rightarrow> request list" where
  "request_of (Http rq) = [rq]"
| "request_of e = []"

definition requests_of :: "event list \<Rightarrow> request list" where
  "requests_of t = concat (map request_of t)"

definition clears :: "event list \<Rightarrow> nat" where
  "clears t = length (filter (\<lambda>e. e = ClearCache) t)"

definition fetches :: "string \<Rightarrow> bool \<Rightarrow> event list \<Rightarrow> nat" where
  "fetches field config t = length (filter (\<lambda>e. e = Lookup field config) t)"

text \<open>The URL \<^verbatim>\<open>{api_url}/devices/{device_uuid}\<close> of a device, from what its
  \<^verbatim>\<open>device_uuid\<close> property returns.\<close>

definition device_url :: "(json \<Rightarrow> string) \<Rightarrow> world \<Rightarrow> string" where
  "device_url rp w =
     toon_api_url w @ ''/devices/'' @
     py_format rp (case fst (device_uuid w) of Inl e \<Rightarrow> JNull | Inr u \<Rightarrow> u)"

section \<open>Well-formed snapshots and missing data\<close>

text \<open>
  The snapshot document of the service: \<^verbatim>\<open>deviceStatusInfo.device\<close> and
  \<^verbatim>\<open>deviceConfigInfo.device\<close> are lists of objects. \<open>collection\<close> is the list a lookup
  scans, when the document has it.
\<close>

definition collection :: "json \<Rightarrow> bool \<Rightarrow> json list option" where
  "collection snapshot config =
     (case snapshot of
        JObj outer \<Rightarrow>
          (case map_of outer (if config then ''deviceConfigInfo'' else ''deviceStatusInfo'') of
             Some (JObj info) \<Rightarrow>
               (case map_of info ''device'' of Some (JList items) \<Rightarrow> Some items | _ \<Rightarrow> None)
           | _ \<Rightarrow> None)
      | _ \<Rightarrow> None)"

fun is_entry :: "json \<Rightarrow> bool" where
  "is_entry (JObj kvs) = True"
| "is_entry v = False"

fun named :: "string \<Rightarrow> json \<Rightarrow> bool" where
  "named nm (JObj kvs) = (map_of kvs ''name'' = Some (JStr nm))"
| "named nm v = False"

fun lacks :: "string \<Rightarrow> json \<Rightarrow> bool" where
  "lacks field (JObj kvs) = (map_of kvs field = None)"
| "lacks field v = False"

text \<open>The collection is well formed and holds no entry of that name.\<close>

definition no_entry :: "string \<Rightarrow> bool \<Rightarrow> json \<Rightarrow> bool" where
  "no_entry nm config snapshot =
     (case collection snapshot config of
        None \<Rightarrow> False
      | Some items \<Rightarrow> list_all is_entry items \<and> list_all (\<lambda>item. \<not> named nm item) items)"

text \<open>The collection is well formed and the field is missing for that name: no entry is
  named so, or the entries named so lack the field.\<close>

definition absent_in :: "string \<Rightarrow> string \<Rightarrow> bool \<Rightarrow> json \<Rightarrow> bool" where
  "absent_in nm field config snapshot =
     (case collection snapshot config of
        None \<Rightarrow> False
      | Some items \<Rightarrow>
          list_all is_entry items \<and>
          list_all (\<lambda>item. \<not> named nm item \<or> lacks field item) items)"

text \<open>The same for the device and the snapshot of a world.\<close>

definition missing :: "string \<Rightarrow> bool \<Rightarrow> world \<Rightarrow> bool" where
  "missing field config w = absent_in (dev_name w) field config (toon_status w)"

definition unknown :: "world \<Rightarrow> bool" where
  "unknown w =
     (no_entry (dev_name w) False (toon_status w) \<and> no_entry (dev_name w) True (toon_status w))"

section \<open>Sequences of accesses and snapshot replacements\<close>

datatype memo_prop = DeviceUuid | DeviceType | ZwaveIndex | ZwaveUuid | UsageCapable

datatype step = Access memo_prop | Replace json

fun read :: "memo_prop \<Rightarrow> json action" where
  "read DeviceUuid = device_uuid"
| "read DeviceType = device_type"
| "read ZwaveIndex = zwave_index"
| "read ZwaveUuid = zwave_uuid"
| "read UsageCapable = and_then usage_capable (\<lambda>b. ret (JBool b))"

fun run :: "step list \<Rightarrow> world \<Rightarrow> world" where
  "run [] w = w"
| "run (Access p # steps) w = run steps (snd (read p w))"
| "run (Replace snapshot # steps) w = run steps (w\<lparr>toon_status := snapshot\<rparr>)"

text \<open>The memo attribute behind a property, as the Python value it holds.\<close>

fun memo_of :: "memo_prop \<Rightarrow> world \<Rightarrow> json" where
  "memo_of DeviceUuid w = memo_device_uuid w"
| "memo_of DeviceType w = memo_device_type w"
| "memo_of ZwaveIndex w = memo_zwave_index w"
| "memo_of ZwaveUuid w = memo_zwave_uuid w"
| "memo_of UsageCapable w = (case memo_usage_capable w of None \<Rightarrow> JNull | Some b \<Rightarrow> JBool b)"

text \<open>The guard of each property: the four identifiers test the attribute's truth
  (\<^verbatim>\<open>if not self._x\<close>), \<^verbatim>\<open>usage_capable\<close> tests \<^verbatim>\<open>is None\<close>.\<close>

fun populated :: "memo_prop \<Rightarrow> world \<Rightarrow> bool" where
  "populated UsageCapable w = (memo_usage_capable w \<noteq> None)"
| "populated p w = truthy (memo_of p w)"

fun fetched :: "memo_prop \<Rightarrow> event list \<Rightarrow> nat" where
  "fetched DeviceUuid t = fetches ''devUUID'' False t"
| "fetched DeviceType t = fetches ''devType'' True t"
| "fetched ZwaveIndex t = fetches ''position'' True t"
| "fetched ZwaveUuid t = fetches ''zwUuid'' True t"
| "fetched UsageCapable t = fetches ''usageCapable'' True t"

section \<open>Example data\<close>

text \<open>The snapshot of the scenarios: one smart plug \<^verbatim>\<open>plug1\<close>, with its connection flag,
  its lock flag, its current state and its usage capability as parameters.\<close>

definition plug_snapshot :: "bool \<Rightarrow> bool \<Rightarrow> int \<Rightarrow> bool \<Rightarrow> json" where
  "plug_snapshot connected locked st capable =
     JObj [(''deviceStatusInfo'', JObj [(''device'', JList [
             JObj [(''name'', JStr ''plug1''), (''devUUID'', JStr ''uuid-1''),
                   (''isConnected'', JBool connected), (''currentState'', JInt st),
                   (''avgUsage'', JInt 7), (''currentUsage'', JInt 8), (''dayUsage'', JInt 9)]])]),
           (''deviceConfigInfo'', JObj [(''device'', JList [
             JObj [(''name'', JStr ''plug1''), (''devType'', JStr ''FGWP011''),
                   (''switchLocked'', JBool locked), (''position'', JInt 0),
                   (''zwUuid'', JStr ''zw-1''), (''usageCapable'', JBool capable)]])])]"

definition empty_snapshot :: json where
  "empty_snapshot =
     JObj [(''deviceStatusInfo'', JObj [(''device'', JList [])]),
           (''deviceConfigInfo'', JObj [(''device'', JList [])])]"

definition plug1 :: "json \<Rightarrow> world" where
  "plug1 snapshot = new_device snapshot ''https://api.toon.eu/toon/v3/1'' [(''Authorization'', ''Bearer t'')] ''plug1''"

text \<open>A server that answers every GET with the device document and every PUT with the
  given status code and a body that is not JSON.\<close>

fun plug_server :: "nat \<Rightarrow> server" where
  "plug_server code (Get url hdrs) =
     Reply (Response 200 (Some (JObj [(''uuid'', JStr ''uuid-1''), (''currentState'', JInt 0),
                                       (''name'', JStr ''plug1'')])))"
| "plug_server code (Put url hdrs doc) = Reply (Response code None)"

definition plain_repr :: "json \<Rightarrow> string" where
  "plain_repr v = ''<object>''"

section \<open>Basic facts\<close>

lemma emit_simps [simp]:
  "toon_status (emit e w) = toon_status w"
  "toon_api_url (emit e w) = toon_api_url w"
  "toon_headers (emit e w) = toon_headers w"
  "dev_name (emit e w) = dev_name w"
  "memo_device_type (emit e w) = memo_device_type w"
  "memo_zwave_index (emit e w) = memo_zwave_index w"
  "memo_zwave_uuid (emit e w) = memo_zwave_uuid w"
  "memo_device_uuid (emit e w) = memo_device_uuid w"
  "memo_usage_capable (emit e w) = memo_usage_capable w"
  "trace (emit e w) = trace w @ [e]"
  by (simp_all add: emit_def)

lemma and_then_Inr [simp]: "m w = (Inr x, w') \<Longrightarrow> and_then m f w = f x w'"
  by (simp add: and_then_def)

lemma and_then_Inl [simp]: "m w = (Inl e, w') \<Longrightarrow> and_then m f w = (Inl e, w')"
  by (simp add: and_then_def)

lemma get_value_fst [simp]:
  "fst (get_value field config w) = find_value (toon_status w) (dev_name w) field config"
  by (simp add: get_value_def)

lemma get_value_snd [simp]: "snd (get_value field config w) = emit (Lookup field config) w"
  by (simp add: get_value_def)

lemma is_connected_eq:
  "is_connected w =
     (case find_value (toon_status w) (dev_name w) ''isConnected'' False of
        Inl e \<Rightarrow> Inl e | Inr v \<Rightarrow> Inr (truthy v),
      emit (Lookup ''isConnected'' False) w)"
  by (simp add: is_connected_def and_then_def get_value_def ret_def split: sum.splits)

lemma is_locked_eq:
  "is_locked w =
     (case find_value (toon_status w) (dev_name w) ''switchLocked'' True of
        Inl e \<Rightarrow> Inl e | Inr v \<Rightarrow> Inr (truthy v),
      emit (Lookup ''switchLocked'' True) w)"
  by (simp add: is_locked_def and_then_def get_value_def ret_def split: sum.splits)

lemma can_toggle_eq:
  "can_toggle w =
     (case find_value (toon_status w) (dev_name w) ''isConnected'' False of
        Inl e \<Rightarrow> (Inl e, emit (Lookup ''isConnected'' False) w)
      | Inr c \<Rightarrow>
          if \<not> truthy c then (Inr False, emit (Lookup ''isConnected'' False) w)
          else
            (case find_value (toon_status w) (dev_name w) ''switchLocked'' True of
               Inl e \<Rightarrow> Inl e | Inr l \<Rightarrow> Inr (\<not> truthy l),
             emit (Lookup ''switchLocked'' True) (emit (Lookup ''isConnected'' False) w)))"
  by (simp add: can_toggle_def and_then_def is_connected_eq is_locked_eq ret_def split: sum.splits)


lemma device_uuid_eq:
  "device_uuid w =
     (if truthy (memo_device_uuid w) then (Inr (memo_device_uuid w), w)
      else (case find_value (toon_status w) (dev_name w) ''devUUID'' False of
              Inl e \<Rightarrow> (Inl e, emit (Lookup ''devUUID'' False) w)
            | Inr v \<Rightarrow> (Inr v, (emit (Lookup ''devUUID'' False) w)\<lparr>memo_device_uuid := v\<rparr>)))"
  by (simp add: device_uuid_def get_value_def split: sum.splits)

lemma scan_defined:
  "scan nm f items = Inr v \<Longrightarrow> \<exists>v'. scan nm f' items = Inr v'"
proof (induction items)
  case Nil
  show ?case by simp
next
  case (Cons item items)
  then show ?case
    by (cases item) (auto split: if_splits)
qed

lemma find_value_defined:
  assumes "find_value s nm f c = Inr v"
  shows "\<exists>v'. find_value s nm f' c = Inr v'"
proof -
  let ?key = "if c then ''deviceConfigInfo'' else ''deviceStatusInfo''"
  from assms obtain info where info: "py_get s ?key = Inr info"
    by (auto simp add: find_value_def Let_def split: sum.splits)
  with assms obtain devices where devices: "py_get info ''device'' = Inr devices"
    by (auto simp add: find_value_def Let_def split: sum.splits)
  with assms info obtain items where items: "py_iter devices = Inr items"
    by (auto simp add: find_value_def Let_def split: sum.splits)
  with assms info devices have "scan nm f items = Inr v"
    by (simp add: find_value_def Let_def)
  then obtain v' where "scan nm f' items = Inr v'"
    using scan_defined by blast
  with info devices items have "find_value s nm f' c = Inr v'"
    by (simp add: find_value_def Let_def)
  then show ?thesis ..
qed

lemma change_state_blocked:
  assumes "fst (can_toggle w) = Inr False"
  shows "change_state srv rp st w = (Inr False, emit (LogWarning warning_text) (snd (can_toggle w)))"
proof -
  from assms have "can_toggle w = (Inr False, snd (can_toggle w))"
    by (metis prod.collapse)
  then show ?thesis
    by (simp add: change_state_def)
qed

lemma can_toggle_trace:
  "fst (can_toggle w) = Inr True \<Longrightarrow>
   snd (can_toggle w) = emit (Lookup ''switchLocked'' True) (emit (Lookup ''isConnected'' False) w)"
  by (auto simp add: can_toggle_eq split: sum.splits if_splits)

lemma can_toggle_uuid:
  assumes "fst (can_toggle w) = Inr True"
  shows "\<exists>u. fst (device_uuid w) = Inr u"
proof -
  from assms obtain c where "find_value (toon_status w) (dev_name w) ''isConnected'' False = Inr c"
    by (auto simp add: can_toggle_eq split: sum.splits)
  then obtain u where "find_value (toon_status w) (dev_name w) ''devUUID'' False = Inr u"
    using find_value_defined by blast
  then show ?thesis
    by (simp add: device_uuid_eq)
qed

lemma change_state_able:
  assumes able: "fst (can_toggle w) = Inr True"
    and got: "srv (Get (device_url rp w) (toon_headers w)) = Reply (Response code (Some (JObj kvs)))"
    and put: "srv (Put (device_url rp w) (toon_headers w)
                (JObj (dict_set ''currentState'' (JInt (py_int st)) kvs))) = Reply r"
  shows "fst (change_state srv rp st w) = Inr True"
    and "trace (snd (change_state srv rp st w)) =
           trace w @ [Lookup ''isConnected'' False, Lookup ''switchLocked'' True]
           @ (if truthy (memo_device_uuid w) then [] else [Lookup ''devUUID'' False])
           @ [Http (Get (device_url rp w) (toon_headers w)),
              Http (Put (device_url rp w) (toon_headers w)
                     (JObj (dict_set ''currentState'' (JInt (py_int st)) kvs))),
              LogDebug r, ClearCache]"
proof -
  let ?w1 = "emit (Lookup ''switchLocked'' True) (emit (Lookup ''isConnected'' False) w)"
  have ct: "can_toggle w = (Inr True, ?w1)"
    using able can_toggle_trace [OF able] by (metis prod.collapse)
  obtain u where u: "fst (device_uuid w) = Inr u"
    using can_toggle_uuid [OF able] by blast
  have url: "device_url rp w = toon_api_url w @ ''/devices/'' @ py_format rp u"
    by (simp add: device_url_def u)
  obtain w2 where du: "device_uuid ?w1 = (Inr u, w2)"
    and w2: "toon_api_url w2 = toon_api_url w" "toon_headers w2 = toon_headers w"
      "trace w2 = trace w @ [Lookup ''isConnected'' False, Lookup ''switchLocked'' True]
           @ (if truthy (memo_device_uuid w) then [] else [Lookup ''devUUID'' False])"
    using u by (auto simp add: device_uuid_eq split: sum.splits if_splits)
  let ?url = "toon_api_url w2 @ ''/devices/'' @ py_format rp u"
  let ?doc = "JObj (dict_set ''currentState'' (JInt (py_int st)) kvs)"
  have g: "send srv (Get ?url (toon_headers w2)) w2 =
             (Inr (Response code (Some (JObj kvs))), emit (Http (Get (device_url rp w) (toon_headers w))) w2)"
  proof -
    have "send srv (Get (device_url rp w) (toon_headers w)) w2 =
             (Inr (Response code (Some (JObj kvs))), emit (Http (Get (device_url rp w) (toon_headers w))) w2)"
      by (simp add: send_def got)
    then show ?thesis by (simp only: w2 url [symmetric])
  qed
  have p: "send srv (Put ?url (toon_headers w2) ?doc) w' =
             (Inr r, emit (Http (Put (device_url rp w) (toon_headers w) ?doc)) w')" for w'
  proof -
    have "send srv (Put (device_url rp w) (toon_headers w) ?doc) w' =
             (Inr r, emit (Http (Put (device_url rp w) (toon_headers w) ?doc)) w')"
      by (simp add: send_def put)
    then show ?thesis by (simp only: w2 url [symmetric])
  qed
  have run: "change_state srv rp st w =
      (Inr True, emit ClearCache (emit (LogDebug r)
         (emit (Http (Put (device_url rp w) (toon_headers w) ?doc))
           (emit (Http (Get (device_url rp w) (toon_headers w))) w2))))"
    unfolding change_state_def
    by (simp add: ct du Let_def g p lift_def response_json_def del: append.simps list.simps)
  show "fst (change_state srv rp st w) = Inr True"
    by (simp add: run)
  show "trace (snd (change_state srv rp st w)) =
           trace w @ [Lookup ''isConnected'' False, Lookup ''switchLocked'' True]
           @ (if truthy (memo_device_uuid w) then [] else [Lookup ''devUUID'' False])
           @ [Http (Get (device_url rp w) (toon_headers w)),
              Http (Put (device_url rp w) (toon_headers w)
                     (JObj (dict_set ''currentState'' (JInt (py_int st)) kvs))),
              LogDebug r, ClearCache]"
    by (simp add: run w2)
qed

lemma map_of_dict_set: "map_of (dict_set k v kvs) = (map_of kvs)(k \<mapsto> v)"
  by (induction kvs) (auto simp add: fun_eq_iff)

lemmas eval_defs = can_toggle_def and_then_def is_connected_def is_locked_def get_value_def
  find_value_def plug1_def new_device_def plug_snapshot_def empty_snapshot_def emit_def ret_def
  device_uuid_def device_url_def change_state_def send_def lift_def response_json_def
  requests_of_def clears_def current_state_def status_def toggle_def turn_on_def turn_off_def
  usage_capable_def average_usage_def current_usage_def daily_usage_def

lemma requests_of_Nil [simp]: "requests_of [] = []"
  by (simp add: requests_of_def)

lemma clears_Nil [simp]: "clears [] = 0"
  by (simp add: clears_def)

lemma requests_of_append [simp]: "requests_of (xs @ ys) = requests_of xs @ requests_of ys"
  by (simp add: requests_of_def)

lemma clears_append [simp]: "clears (xs @ ys) = clears xs + clears ys"
  by (simp add: clears_def)

lemma can_toggle_only_looks:
  "\<exists>ls. trace (snd (can_toggle w)) = trace w @ ls \<and> requests_of ls = [] \<and> clears ls = 0"
  by (simp add: can_toggle_eq requests_of_def clears_def split: sum.splits)

section \<open>can_toggle\<close>

text \<open>
  C3. \<^verbatim>\<open>can_toggle\<close> returns \<^verbatim>\<open>True\<close> exactly when \<^verbatim>\<open>is_connected\<close> returns
  \<^verbatim>\<open>True\<close> and \<^verbatim>\<open>is_locked\<close> returns \<^verbatim>\<open>False\<close>, for every device and every
  snapshot; and whenever the two properties return booleans \<open>c\<close> and \<open>l\<close>,
  \<^verbatim>\<open>can_toggle\<close> returns \<open>c \<and> \<not> l\<close>, which covers the four combinations.
\<close>

theorem can_toggle_iff:
  "(fst (can_toggle w) = Inr True) =
     (fst (is_connected w) = Inr True \<and> fst (is_locked w) = Inr False)
   \<and> (\<forall>c l. fst (is_connected w) = Inr c \<and> fst (is_locked w) = Inr l
          \<longrightarrow> fst (can_toggle w) = Inr (c \<and> \<not> l))"
  by (auto simp add: can_toggle_eq is_connected_eq is_locked_eq split: sum.splits)

theorem can_toggle_iff_witness:
  "list_all (\<lambda>(c, l).
      fst (is_connected (plug1 (plug_snapshot c l 0 True))) = Inr c
      \<and> fst (is_locked (plug1 (plug_snapshot c l 0 True))) = Inr l
      \<and> fst (can_toggle (plug1 (plug_snapshot c l 0 True))) = Inr (c \<and> \<not> l))
    [(True, True), (True, False), (False, True), (False, False)]"
proof -
  have "fst (is_connected (plug1 (plug_snapshot c l 0 True))) = Inr c
      \<and> fst (is_locked (plug1 (plug_snapshot c l 0 True))) = Inr l" for c l
    by (simp add: eval_defs)
  then show ?thesis
    using can_toggle_iff by simp
qed

section \<open>_change_state\<close>

text \<open>
  C2. When \<^verbatim>\<open>can_toggle\<close> is false, \<^verbatim>\<open>_change_state\<close> returns \<^verbatim>\<open>False\<close> and raises
  nothing; beyond what evaluating \<^verbatim>\<open>can_toggle\<close> left in the trace it only logs the
  warning, so it sends no HTTP request and does not clear the session's cache.
\<close>

theorem change_state_refused:
  assumes "fst (can_toggle w) = Inr False"
  shows "fst (change_state srv rp st w) = Inr False
    \<and> trace (snd (change_state srv rp st w)) =
        trace (snd (can_toggle w)) @ [LogWarning warning_text]
    \<and> requests_of (trace (snd (change_state srv rp st w))) = requests_of (trace w)
    \<and> clears (trace (snd (change_state srv rp st w))) = clears (trace w)"
proof -
  obtain ls where ls: "trace (snd (can_toggle w)) = trace w @ ls"
      "requests_of ls = []" "clears ls = 0"
    using can_toggle_only_looks by blast
  have run: "change_state srv rp st w =
      (Inr False, emit (LogWarning warning_text) (snd (can_toggle w)))"
    by (rule change_state_blocked [OF assms])
  show ?thesis
    by (simp add: run ls) (simp add: requests_of_def clears_def)
qed

theorem change_state_refused_witness:
  "fst (can_toggle (plug1 (plug_snapshot True True 0 True))) = Inr False
   \<and> fst (change_state (plug_server 200) plain_repr (SInt 1)
           (plug1 (plug_snapshot True True 0 True))) = Inr False
   \<and> requests_of (trace (snd (change_state (plug_server 200) plain_repr (SInt 1)
           (plug1 (plug_snapshot True True 0 True))))) = []
   \<and> clears (trace (snd (change_state (plug_server 200) plain_repr (SInt 1)
           (plug1 (plug_snapshot True True 0 True))))) = 0"
proof -
  have h: "fst (can_toggle (plug1 (plug_snapshot True True 0 True))) = Inr False"
    by (simp add: eval_defs)
  have t: "trace (plug1 (plug_snapshot True True 0 True)) = []"
    by (simp add: plug1_def new_device_def)
  show ?thesis
    using h change_state_refused [OF h, of "plug_server 200" plain_repr "SInt 1"]
    unfolding t requests_of_Nil clears_Nil by blast
qed

text \<open>
  C1. A device whose \<^verbatim>\<open>can_toggle\<close> is true, on a service that answers the GET with a
  JSON object and the PUT with a response: \<^verbatim>\<open>_change_state(state)\<close> returns \<^verbatim>\<open>True\<close>;
  after the lookups of \<^verbatim>\<open>can_toggle\<close> and \<^verbatim>\<open>device_uuid\<close> it sends one GET and then
  one PUT, both to \<^verbatim>\<open>{api_url}/devices/{device_uuid}\<close>, logs the response and clears
  the cache, in this order and nothing else; the PUT's document is the GET's with
  \<^verbatim>\<open>currentState\<close> set to \<^verbatim>\<open>int(state)\<close> and every other key as it was.
\<close>

theorem change_state_get_put_clear:
  assumes "fst (can_toggle w) = Inr True"
    and "srv (Get (device_url rp w) (toon_headers w)) = Reply (Response code (Some (JObj kvs)))"
    and "srv (Put (device_url rp w) (toon_headers w)
               (JObj (dict_set ''currentState'' (JInt (py_int st)) kvs))) = Reply r"
  shows "fst (change_state srv rp st w) = Inr True
    \<and> trace (snd (change_state srv rp st w)) =
        trace w @ [Lookup ''isConnected'' False, Lookup ''switchLocked'' True]
        @ (if truthy (memo_device_uuid w) then [] else [Lookup ''devUUID'' False])
        @ [Http (Get (device_url rp w) (toon_headers w)),
           Http (Put (device_url rp w) (toon_headers w)
                  (JObj (dict_set ''currentState'' (JInt (py_int st)) kvs))),
           LogDebug r, ClearCache]
    \<and> requests_of (trace (snd (change_state srv rp st w))) =
        requests_of (trace w)
        @ [Get (device_url rp w) (toon_headers w),
           Put (device_url rp w) (toon_headers w)
             (JObj (dict_set ''currentState'' (JInt (py_int st)) kvs))]
    \<and> map_of (dict_set ''currentState'' (JInt (py_int st)) kvs) =
        (map_of kvs)(''currentState'' \<mapsto> JInt (py_int st))
    \<and> clears (trace (snd (change_state srv rp st w))) = clears (trace w) + 1"
proof -
  note run = change_state_able [OF assms]
  have "requests_of (trace (snd (change_state srv rp st w))) =
        requests_of (trace w)
        @ [Get (device_url rp w) (toon_headers w),
           Put (device_url rp w) (toon_headers w)
             (JObj (dict_set ''currentState'' (JInt (py_int st)) kvs))]"
    unfolding run(2) by (simp add: requests_of_def)
  moreover have "clears (trace (snd (change_state srv rp st w))) = clears (trace w) + 1"
    unfolding run(2) by (simp add: clears_def)
  ultimately show ?thesis
    using run map_of_dict_set by blast
qed

theorem change_state_get_put_clear_witness:
  "fst (can_toggle (plug1 (plug_snapshot True False 0 True))) = Inr True
   \<and> fst (change_state (plug_server 200) plain_repr (SInt 1)
           (plug1 (plug_snapshot True False 0 True))) = Inr True
   \<and> requests_of (trace (snd (change_state (plug_server 200) plain_repr (SInt 1)
           (plug1 (plug_snapshot True False 0 True))))) =
       [Get ''https://api.toon.eu/toon/v3/1/devices/uuid-1'' [(''Authorization'', ''Bearer t'')],
        Put ''https://api.toon.eu/toon/v3/1/devices/uuid-1'' [(''Authorization'', ''Bearer t'')]
          (JObj [(''uuid'', JStr ''uuid-1''), (''currentState'', JInt 1),
                 (''name'', JStr ''plug1'')])]
   \<and> clears (trace (snd (change_state (plug_server 200) plain_repr (SInt 1)
           (plug1 (plug_snapshot True False 0 True))))) = 1"
proof -
  let ?w = "plug1 (plug_snapshot True False 0 True)"
  let ?kvs = "[(''uuid'', JStr ''uuid-1''), (''currentState'', JInt 0), (''name'', JStr ''plug1'')]"
  have h: "fst (can_toggle ?w) = Inr True"
    by (simp add: eval_defs)
  have g: "plug_server 200 (Get (device_url plain_repr ?w) (toon_headers ?w)) =
             Reply (Response 200 (Some (JObj ?kvs)))"
    by simp
  have p: "plug_server 200 (Put (device_url plain_repr ?w) (toon_headers ?w)
             (JObj (dict_set ''currentState'' (JInt (py_int (SInt 1))) ?kvs))) =
             Reply (Response 200 None)"
    by simp
  have t: "trace ?w = []" "toon_headers ?w = [(''Authorization'', ''Bearer t'')]"
    by (simp_all add: plug1_def new_device_def)
  have u: "device_url plain_repr ?w = ''https://api.toon.eu/toon/v3/1/devices/uuid-1''"
    by (simp add: eval_defs)
  have d: "dict_set ''currentState'' (JInt (py_int (SInt 1))) ?kvs =
             [(''uuid'', JStr ''uuid-1''), (''currentState'', JInt 1), (''name'', JStr ''plug1'')]"
    by simp
  note r = change_state_get_put_clear [OF h g p, unfolded t u d requests_of_Nil clears_Nil]
  from r have "fst (change_state (plug_server 200) plain_repr (SInt 1) ?w) = Inr True"
    by blast
  moreover from r have "requests_of (trace (snd (change_state (plug_server 200) plain_repr (SInt 1) ?w))) =
       [] @ [Get ''https://api.toon.eu/toon/v3/1/devices/uuid-1'' [(''Authorization'', ''Bearer t'')],
        Put ''https://api.toon.eu/toon/v3/1/devices/uuid-1'' [(''Authorization'', ''Bearer t'')]
          (JObj [(''uuid'', JStr ''uuid-1''), (''currentState'', JInt 1),
                 (''name'', JStr ''plug1'')])]"
    by blast
  moreover from r have "clears (trace (snd (change_state (plug_server 200) plain_repr (SInt 1) ?w))) = 0 + 1"
    by blast
  ultimately show ?thesis
    using h by simp
qed

text \<open>
  C6. A device whose \<^verbatim>\<open>can_toggle\<close> is true, on a service that answers the GET with a
  JSON object: whatever status code and body the PUT's response carries,
  \<^verbatim>\<open>_change_state\<close> returns \<^verbatim>\<open>True\<close> and clears the cache once, as its last action.
\<close>

theorem change_state_ignores_put_status:
  assumes "fst (can_toggle w) = Inr True"
    and "srv (Get (device_url rp w) (toon_headers w)) = Reply (Response code (Some (JObj kvs)))"
    and "srv (Put (device_url rp w) (toon_headers w)
               (JObj (dict_set ''currentState'' (JInt (py_int st)) kvs))) =
           Reply (Response put_code put_body)"
  shows "fst (change_state srv rp st w) = Inr True
    \<and> clears (trace (snd (change_state srv rp st w))) = clears (trace w) + 1
    \<and> last (trace (snd (change_state srv rp st w))) = ClearCache"
proof -
  note run = change_state_able [OF assms]
  have "clears (trace (snd (change_state srv rp st w))) = clears (trace w) + 1"
    unfolding run(2) by (simp add: clears_def)
  moreover have "last (trace (snd (change_state srv rp st w))) = ClearCache"
    unfolding run(2) by simp
  ultimately show ?thesis
    using run(1) by blast
qed

theorem change_state_ignores_put_status_witness:
  "fst (can_toggle (plug1 (plug_snapshot True False 1 True))) = Inr True
   \<and> plug_server 500 (Put (device_url plain_repr (plug1 (plug_snapshot True False 1 True)))
        (toon_headers (plug1 (plug_snapshot True False 1 True)))
        (JObj [(''uuid'', JStr ''uuid-1''), (''currentState'', JInt 0),
               (''name'', JStr ''plug1'')])) = Reply (Response 500 None)
   \<and> fst (change_state (plug_server 500) plain_repr (SBool False)
           (plug1 (plug_snapshot True False 1 True))) = Inr True
   \<and> clears (trace (snd (change_state (plug_server 500) plain_repr (SBool False)
           (plug1 (plug_snapshot True False 1 True))))) = 1"
proof -
  let ?w = "plug1 (plug_snapshot True False 1 True)"
  let ?kvs = "[(''uuid'', JStr ''uuid-1''), (''currentState'', JInt 0), (''name'', JStr ''plug1'')]"
  have h: "fst (can_toggle ?w) = Inr True"
    by (simp add: eval_defs)
  have g: "plug_server 500 (Get (device_url plain_repr ?w) (toon_headers ?w)) =
             Reply (Response 200 (Some (JObj ?kvs)))"
    by simp
  have p: "plug_server 500 (Put (device_url plain_repr ?w) (toon_headers ?w)
             (JObj (dict_set ''currentState'' (JInt (py_int (SBool False))) ?kvs))) =
             Reply (Response 500 None)"
    by simp
  have t: "trace ?w = []"
    by (simp add: plug1_def new_device_def)
  note r = change_state_ignores_put_status [OF h g p, unfolded t clears_Nil]
  from r have "fst (change_state (plug_server 500) plain_repr (SBool False) ?w) = Inr True"
    by blast
  moreover from r have "clears (trace (snd (change_state (plug_server 500) plain_repr (SBool False) ?w))) = 0 + 1"
    by blast
  ultimately show ?thesis
    using h by simp
qed

subsection \<open>Where it raises\<close>

text \<open>
  The exchange with the service is not guarded: when the GET is answered with a JSON
  document that is not an object, the assignment to \<^verbatim>\<open>data["currentState"]\<close> raises a
  TypeError after the GET; no PUT is sent and the cache is not cleared.
\<close>

lemma change_state_not_an_object:
  assumes able: "fst (can_toggle w) = Inr True"
    and got: "srv (Get (device_url rp w) (toon_headers w)) = Reply (Response code (Some d))"
    and odd: "\<not> is_entry d"
  shows "fst (change_state srv rp st w) = Inl TypeError"
    and "requests_of (trace (snd (change_state srv rp st w))) =
           requests_of (trace w) @ [Get (device_url rp w) (toon_headers w)]"
    and "clears (trace (snd (change_state srv rp st w))) = clears (trace w)"
proof -
  let ?w1 = "emit (Lookup ''switchLocked'' True) (emit (Lookup ''isConnected'' False) w)"
  have ct: "can_toggle w = (Inr True, ?w1)"
    using able can_toggle_trace [OF able] by (metis prod.collapse)
  obtain u where u: "fst (device_uuid w) = Inr u"
    using can_toggle_uuid [OF able] by blast
  have url: "device_url rp w = toon_api_url w @ ''/devices/'' @ py_format rp u"
    by (simp add: device_url_def u)
  obtain w2 where du: "device_uuid ?w1 = (Inr u, w2)"
    and w2: "toon_api_url w2 = toon_api_url w" "toon_headers w2 = toon_headers w"
      "trace w2 = trace w @ [Lookup ''isConnected'' False, Lookup ''switchLocked'' True]
           @ (if truthy (memo_device_uuid w) then [] else [Lookup ''devUUID'' False])"
    using u by (auto simp add: device_uuid_eq split: sum.splits if_splits)
  let ?url = "toon_api_url w2 @ ''/devices/'' @ py_format rp u"
  have g: "send srv (Get ?url (toon_headers w2)) w2 =
             (Inr (Response code (Some d)), emit (Http (Get (device_url rp w) (toon_headers w))) w2)"
  proof -
    have "send srv (Get (device_url rp w) (toon_headers w)) w2 =
             (Inr (Response code (Some d)), emit (Http (Get (device_url rp w) (toon_headers w))) w2)"
      by (simp add: send_def got)
    then show ?thesis by (simp only: w2 url [symmetric])
  qed
  have refused: "py_setitem d ''currentState'' (JInt (py_int st)) = Inl TypeError"
    using odd by (cases d) simp_all
  have run: "change_state srv rp st w =
      (Inl TypeError, emit (Http (Get (device_url rp w) (toon_headers w))) w2)"
    unfolding change_state_def
    by (simp add: ct du Let_def g lift_def response_json_def refused
        del: append.simps list.simps)
  show "fst (change_state srv rp st w) = Inl TypeError"
    by (simp add: run)
  show "requests_of (trace (snd (change_state srv rp st w))) =
           requests_of (trace w) @ [Get (device_url rp w) (toon_headers w)]"
    by (simp add: run w2) (simp add: requests_of_def)
  show "clears (trace (snd (change_state srv rp st w))) = clears (trace w)"
    by (simp add: run w2) (simp add: clears_def)
qed

section \<open>toggle, turn_on, turn_off and status\<close>

lemma change_state_int:
  "py_int a = py_int b \<Longrightarrow> change_state srv rp a = change_state srv rp b"
  by (simp add: change_state_def Let_def cong: if_cong)

text \<open>
  C7. \<^verbatim>\<open>toggle()\<close> reads \<^verbatim>\<open>current_state\<close> and then behaves as
  \<^verbatim>\<open>_change_state(not current_state)\<close>; when \<^verbatim>\<open>current_state\<close> is 1 that is the
  behaviour of \<^verbatim>\<open>_change_state(0)\<close>. \<^verbatim>\<open>turn_on()\<close> and \<^verbatim>\<open>turn_off()\<close> behave as
  \<^verbatim>\<open>_change_state(1)\<close> and \<^verbatim>\<open>_change_state(0)\<close>.
\<close>

theorem toggle_is_change_state:
  "toggle srv rp w =
     (case current_state w of
        (Inl e, w') \<Rightarrow> (Inl e, w')
      | (Inr v, w') \<Rightarrow> change_state srv rp (SBool (\<not> truthy v)) w')
   \<and> (fst (current_state w) = Inr (JInt 1) \<longrightarrow>
        toggle srv rp w = change_state srv rp (SInt 0) (snd (current_state w)))
   \<and> turn_on srv rp w = change_state srv rp (SInt 1) w
   \<and> turn_off srv rp w = change_state srv rp (SInt 0) w"
proof -
  have unfolded: "toggle srv rp w =
     (case current_state w of
        (Inl e, w') \<Rightarrow> (Inl e, w')
      | (Inr v, w') \<Rightarrow> change_state srv rp (SBool (\<not> truthy v)) w')"
    by (simp add: toggle_def and_then_def)
  have zero: "change_state srv rp (SBool (\<not> truthy (JInt 1))) = change_state srv rp (SInt 0)"
    by (rule change_state_int) simp
  have "toggle srv rp w = change_state srv rp (SInt 0) (snd (current_state w))"
    if "fst (current_state w) = Inr (JInt 1)"
  proof -
    from that have "current_state w = (Inr (JInt 1), snd (current_state w))"
      by (metis prod.collapse)
    then show ?thesis
      using zero by (simp add: toggle_def)
  qed
  then show ?thesis
    using unfolded by (simp add: turn_on_def turn_off_def)
qed

theorem toggle_is_change_state_witness:
  "fst (current_state (plug1 (plug_snapshot True False 1 True))) = Inr (JInt 1)
   \<and> toggle (plug_server 200) plain_repr (plug1 (plug_snapshot True False 1 True)) =
       change_state (plug_server 200) plain_repr (SInt 0)
         (snd (current_state (plug1 (plug_snapshot True False 1 True))))
   \<and> turn_on (plug_server 200) plain_repr (plug1 (plug_snapshot True False 1 True)) =
       change_state (plug_server 200) plain_repr (SInt 1) (plug1 (plug_snapshot True False 1 True))"
proof -
  have h: "fst (current_state (plug1 (plug_snapshot True False 1 True))) = Inr (JInt 1)"
    by (simp add: eval_defs)
  show ?thesis
    using h toggle_is_change_state [of "plug_server 200" plain_repr
        "plug1 (plug_snapshot True False 1 True)"]
    by blast
qed

text \<open>
  C9. \<^verbatim>\<open>status\<close> is \<^verbatim>\<open>'on'\<close> when the value \<^verbatim>\<open>current_state\<close> returns is truthy and
  \<^verbatim>\<open>'off'\<close> otherwise; it raises only what \<^verbatim>\<open>current_state\<close> raises.
\<close>

theorem status_on_off:
  "fst (status w) =
     (case fst (current_state w) of
        Inl e \<Rightarrow> Inl e
      | Inr v \<Rightarrow> Inr (if truthy v then ''on'' else ''off''))"
  by (simp add: status_def and_then_def ret_def split: prod.splits sum.splits)

theorem status_on_off_witness:
  "fst (status (plug1 (plug_snapshot True False 1 True))) = Inr ''on''
   \<and> fst (status (plug1 (plug_snapshot True False 0 True))) = Inr ''off''
   \<and> fst (status (plug1 empty_snapshot)) = Inr ''off''"
proof -
  have "fst (current_state (plug1 (plug_snapshot True False 1 True))) = Inr (JInt 1)"
    "fst (current_state (plug1 (plug_snapshot True False 0 True))) = Inr (JInt 0)"
    "fst (current_state (plug1 empty_snapshot)) = Inr JNull"
    by (simp_all add: eval_defs)
  then show ?thesis
    by (simp add: status_on_off)
qed

section \<open>SmartPlug usage\<close>

lemma usage_capable_frame:
  "toon_status (snd (usage_capable w)) = toon_status w"
  "dev_name (snd (usage_capable w)) = dev_name w"
  by (simp_all add: usage_capable_def get_value_def Let_def split: option.splits sum.splits)

lemma gated_eq:
  "fst (and_then usage_capable (\<lambda>c. if c then get_value field False else ret (JInt 0)) w) =
     (case fst (usage_capable w) of
        Inl e \<Rightarrow> Inl e
      | Inr c \<Rightarrow> if c then fst (get_value field False w) else Inr (JInt 0))"
proof (cases "usage_capable w")
  case (Pair r w')
  then have "toon_status w' = toon_status w" "dev_name w' = dev_name w"
    using usage_capable_frame [of w] by simp_all
  with Pair show ?thesis
    by (cases r) (simp_all add: ret_def)
qed

text \<open>
  C8. When \<^verbatim>\<open>usage_capable\<close> is false, \<^verbatim>\<open>average_usage\<close>, \<^verbatim>\<open>current_usage\<close> and
  \<^verbatim>\<open>daily_usage\<close> return 0, whatever the snapshot holds; when it is true they return what
  the status lookup of \<^verbatim>\<open>avgUsage\<close>, \<^verbatim>\<open>currentUsage\<close> and \<^verbatim>\<open>dayUsage\<close> returns.
\<close>

theorem usage_gate:
  "(fst (usage_capable w) = Inr False \<longrightarrow>
      fst (average_usage w) = Inr (JInt 0)
      \<and> fst (current_usage w) = Inr (JInt 0)
      \<and> fst (daily_usage w) = Inr (JInt 0))
   \<and> (fst (usage_capable w) = Inr True \<longrightarrow>
      fst (average_usage w) = fst (get_value ''avgUsage'' False w)
      \<and> fst (current_usage w) = fst (get_value ''currentUsage'' False w)
      \<and> fst (daily_usage w) = fst (get_value ''dayUsage'' False w))"
  unfolding average_usage_def current_usage_def daily_usage_def gated_eq
  by simp

theorem usage_gate_witness:
  "fst (usage_capable (plug1 (plug_snapshot True False 1 False))) = Inr False
   \<and> fst (get_value ''avgUsage'' False (plug1 (plug_snapshot True False 1 False))) = Inr (JInt 7)
   \<and> fst (average_usage (plug1 (plug_snapshot True False 1 False))) = Inr (JInt 0)
   \<and> fst (current_usage (plug1 (plug_snapshot True False 1 False))) = Inr (JInt 0)
   \<and> fst (daily_usage (plug1 (plug_snapshot True False 1 False))) = Inr (JInt 0)
   \<and> fst (usage_capable (plug1 (plug_snapshot True False 1 True))) = Inr True
   \<and> fst (average_usage (plug1 (plug_snapshot True False 1 True))) = Inr (JInt 7)
   \<and> fst (current_usage (plug1 (plug_snapshot True False 1 True))) = Inr (JInt 8)
   \<and> fst (daily_usage (plug1 (plug_snapshot True False 1 True))) = Inr (JInt 9)"
proof -
  let ?off = "plug1 (plug_snapshot True False 1 False)"
  let ?on = "plug1 (plug_snapshot True False 1 True)"
  have off: "fst (usage_capable ?off) = Inr False"
    by (simp add: eval_defs)
  have on: "fst (usage_capable ?on) = Inr True"
    by (simp add: eval_defs)
  have raw: "find_value (toon_status ?off) (dev_name ?off) ''avgUsage'' False = Inr (JInt 7)"
    "find_value (toon_status ?on) (dev_name ?on) ''avgUsage'' False = Inr (JInt 7)"
    "find_value (toon_status ?on) (dev_name ?on) ''currentUsage'' False = Inr (JInt 8)"
    "find_value (toon_status ?on) (dev_name ?on) ''dayUsage'' False = Inr (JInt 9)"
    by (simp_all add: eval_defs)
  show ?thesis
    using off on usage_gate [of ?off] usage_gate [of ?on]
    by (simp add: raw)
qed

section \<open>Devices the snapshot does not know\<close>

lemma scan_absent:
  "list_all is_entry items \<Longrightarrow>
   list_all (\<lambda>item. \<not> named nm item \<or> lacks field item) items \<Longrightarrow>
   scan nm field items = Inr JNull"
proof (induction items)
  case Nil
  show ?case by simp
next
  case (Cons item items)
  from Cons.prems obtain kvs where item: "item = JObj kvs"
    by (cases item) simp_all
  show ?case
  proof (cases "map_of kvs ''name'' = Some (JStr nm)")
    case True
    with Cons.prems item have "map_of kvs field = None"
      by simp
    with True item show ?thesis
      by simp
  next
    case False
    then have "(case map_of kvs ''name'' of None \<Rightarrow> JNull | Some v \<Rightarrow> v) \<noteq> JStr nm"
      by (auto split: option.splits)
    with Cons item show ?thesis
      by simp
  qed
qed

lemma find_value_absent:
  assumes "absent_in nm field config snapshot"
  shows "find_value snapshot nm field config = Inr JNull"
proof -
  let ?key = "if config then ''deviceConfigInfo'' else ''deviceStatusInfo''"
  from assms obtain items where items: "collection snapshot config = Some items"
    and ok: "list_all is_entry items"
      "list_all (\<lambda>item. \<not> named nm item \<or> lacks field item) items"
    by (auto simp add: absent_in_def split: option.splits)
  from items obtain outer where outer: "snapshot = JObj outer"
    by (cases snapshot) (simp_all add: collection_def)
  from items outer obtain info where info: "map_of outer ?key = Some (JObj info)"
    by (auto simp add: collection_def split: option.splits json.splits)
  from items outer info have devices: "map_of info ''device'' = Some (JList items)"
    by (auto simp add: collection_def split: option.splits json.splits if_splits)
  show ?thesis
    using outer info devices scan_absent [OF ok]
    by (simp add: find_value_def)
qed

lemma missing_value:
  "missing field config w \<Longrightarrow> fst (get_value field config w) = Inr JNull"
  by (simp add: missing_def find_value_absent)

lemma unknown_missing: "unknown w \<Longrightarrow> missing field config w"
  by (cases config) (auto simp add: unknown_def missing_def no_entry_def absent_in_def
      list_all_iff split: option.splits)

lemma missing_emit [simp]: "missing field config (emit e w) = missing field config w"
  by (simp add: missing_def)

lemma change_state_blocked_quiet:
  assumes "fst (can_toggle w) = Inr False"
  shows "fst (change_state srv rp st w) = Inr False"
    and "requests_of (trace (snd (change_state srv rp st w))) = requests_of (trace w)"
proof -
  obtain ls where ls: "trace (snd (can_toggle w)) = trace w @ ls" "requests_of ls = []"
    using can_toggle_only_looks by blast
  have run: "change_state srv rp st w =
      (Inr False, emit (LogWarning warning_text) (snd (can_toggle w)))"
    by (rule change_state_blocked [OF assms])
  show "fst (change_state srv rp st w) = Inr False"
    by (simp add: run)
  show "requests_of (trace (snd (change_state srv rp st w))) = requests_of (trace w)"
    by (simp add: run ls) (simp add: requests_of_def)
qed

lemma missing_not_connected:
  "missing ''isConnected'' False w \<Longrightarrow> fst (can_toggle w) = Inr False"
  by (simp add: can_toggle_eq missing_def find_value_absent)

text \<open>
  C10. A device whose name is on no entry of either collection of a well-formed snapshot:
  \<^verbatim>\<open>is_connected\<close> and \<^verbatim>\<open>is_locked\<close> return the boolean \<^verbatim>\<open>False\<close>, so does
  \<^verbatim>\<open>can_toggle\<close>; \<^verbatim>\<open>toggle()\<close>, \<^verbatim>\<open>turn_on()\<close> and \<^verbatim>\<open>turn_off()\<close> return \<^verbatim>\<open>False\<close>
  and send no HTTP request; \<^verbatim>\<open>status\<close> is \<^verbatim>\<open>'off'\<close>.
\<close>

theorem unknown_device_refused:
  assumes "unknown w"
  shows "fst (is_connected w) = Inr False
    \<and> fst (is_locked w) = Inr False
    \<and> fst (can_toggle w) = Inr False
    \<and> fst (toggle srv rp w) = Inr False
    \<and> requests_of (trace (snd (toggle srv rp w))) = requests_of (trace w)
    \<and> fst (turn_on srv rp w) = Inr False
    \<and> requests_of (trace (snd (turn_on srv rp w))) = requests_of (trace w)
    \<and> fst (turn_off srv rp w) = Inr False
    \<and> requests_of (trace (snd (turn_off srv rp w))) = requests_of (trace w)
    \<and> fst (status w) = Inr ''off''"
proof -
  note gone = unknown_missing [OF assms]
  have no_value: "find_value (toon_status w) (dev_name w) field config = Inr JNull" for field config
    using missing_value [OF gone] by simp
  have connected: "fst (is_connected w) = Inr False"
    using no_value [of "''isConnected''" False] by (simp add: is_connected_eq)
  have locked: "fst (is_locked w) = Inr False"
    using no_value [of "''switchLocked''" True] by (simp add: is_locked_eq)
  have able: "fst (can_toggle w') = Inr False" if "missing ''isConnected'' False w'" for w'
    using that by (rule missing_not_connected)
  have state: "current_state w = (Inr JNull, emit (Lookup ''currentState'' False) w)"
    using no_value [of "''currentState''" False] by (simp add: current_state_def get_value_def)
  have able': "fst (can_toggle (emit (Lookup ''currentState'' False) w)) = Inr False"
    by (rule able) (simp add: gone)
  have toggled: "toggle srv rp w =
      change_state srv rp (SBool True) (emit (Lookup ''currentState'' False) w)"
    by (simp add: toggle_def state)
  have t1: "fst (toggle srv rp w) = Inr False"
    unfolding toggled by (rule change_state_blocked_quiet(1) [OF able'])
  have t2: "requests_of (trace (snd (toggle srv rp w))) = requests_of (trace w)"
    unfolding toggled change_state_blocked_quiet(2) [OF able']
    by (simp add: requests_of_def)
  have on: "fst (turn_on srv rp w) = Inr False"
    "requests_of (trace (snd (turn_on srv rp w))) = requests_of (trace w)"
    unfolding turn_on_def by (rule change_state_blocked_quiet [OF able [OF gone]])+
  have off: "fst (turn_off srv rp w) = Inr False"
    "requests_of (trace (snd (turn_off srv rp w))) = requests_of (trace w)"
    unfolding turn_off_def by (rule change_state_blocked_quiet [OF able [OF gone]])+
  have st: "fst (status w) = Inr ''off''"
    by (simp add: status_def state ret_def)
  from connected locked able [OF gone] t1 t2 on off st show ?thesis
    by blast
qed

theorem unknown_device_refused_witness:
  "unknown (new_device (plug_snapshot True False 1 True) ''https://api'' [] ''lamp2'')
   \<and> fst (is_connected (new_device (plug_snapshot True False 1 True) ''https://api'' [] ''lamp2'')) = Inr False
   \<and> fst (toggle (plug_server 200) plain_repr
        (new_device (plug_snapshot True False 1 True) ''https://api'' [] ''lamp2'')) = Inr False
   \<and> requests_of (trace (snd (toggle (plug_server 200) plain_repr
        (new_device (plug_snapshot True False 1 True) ''https://api'' [] ''lamp2'')))) = []
   \<and> fst (status (new_device (plug_snapshot True False 1 True) ''https://api'' [] ''lamp2'')) = Inr ''off''"
proof -
  let ?w = "new_device (plug_snapshot True False 1 True) ''https://api'' [] ''lamp2''"
  have h: "unknown ?w"
    by (simp add: unknown_def no_entry_def collection_def new_device_def plug_snapshot_def)
  have t: "trace ?w = []"
    by (simp add: new_device_def)
  note r = unknown_device_refused [OF h, of "plug_server 200" plain_repr, unfolded t requests_of_Nil]
  show ?thesis
    using h r by blast
qed

section \<open>Missing data\<close>

lemma memo_missing:
    "missing ''devUUID'' False w \<Longrightarrow>
       fst (device_uuid w) = Inr (if truthy (memo_device_uuid w) then memo_device_uuid w else JNull)"
    "missing ''devType'' True w \<Longrightarrow>
       fst (device_type w) = Inr (if truthy (memo_device_type w) then memo_device_type w else JNull)"
    "missing ''position'' True w \<Longrightarrow>
       fst (zwave_index w) = Inr (if truthy (memo_zwave_index w) then memo_zwave_index w else JNull)"
    "missing ''zwUuid'' True w \<Longrightarrow>
       fst (zwave_uuid w) = Inr (if truthy (memo_zwave_uuid w) then memo_zwave_uuid w else JNull)"
  by (simp_all add: device_uuid_def device_type_def zwave_index_def zwave_uuid_def
      get_value_def missing_def find_value_absent)

lemma usage_capable_missing:
  "missing ''usageCapable'' True w \<Longrightarrow>
     fst (usage_capable w) = Inr (case memo_usage_capable w of None \<Rightarrow> False | Some b \<Rightarrow> b)"
  by (simp add: usage_capable_def get_value_def missing_def find_value_absent
      split: option.splits)

lemma gated_missing:
  assumes "missing ''usageCapable'' True w" and "missing field False w"
  shows "fst (and_then usage_capable (\<lambda>c. if c then get_value field False else ret (JInt 0)) w) =
           Inr (if memo_usage_capable w = Some True then JNull else JInt 0)"
  unfolding gated_eq usage_capable_missing [OF assms(1)] missing_value [OF assms(2)]
  by (simp split: option.splits)

text \<open>
  C5, as the code has it. In a well-formed collection where the device's name is on no
  entry, or only on entries without the field, no read property raises and each returns
  its sentinel: \<^verbatim>\<open>None\<close> for the raw properties, \<^verbatim>\<open>False\<close> for the boolean ones,
  \<^verbatim>\<open>'off'\<close> for \<^verbatim>\<open>status\<close>, and for the three usage properties 0, or \<^verbatim>\<open>None\<close> when
  \<^verbatim>\<open>_usage_capable\<close> already holds \<^verbatim>\<open>True\<close>. A memoized property does so only while its
  memo attribute is unpopulated; once populated, it returns the value it holds.
\<close>

theorem missing_data_sentinels:
  "(missing ''isConnected'' False w \<longrightarrow>
      fst (is_connected w) = Inr False \<and> fst (can_toggle w) = Inr False)
   \<and> (missing ''currentState'' False w \<longrightarrow>
      fst (current_state w) = Inr JNull \<and> fst (status w) = Inr ''off'')
   \<and> (missing ''inSwitchAll'' True w \<longrightarrow> fst (in_switch_all_group w) = Inr False)
   \<and> (missing ''inSwitchSchedule'' True w \<longrightarrow> fst (in_switch_schedule w) = Inr False)
   \<and> (missing ''switchLocked'' True w \<longrightarrow> fst (is_locked w) = Inr False)
   \<and> (missing ''networkHealthState'' False w \<longrightarrow> fst (network_health_state w) = Inr JNull)
   \<and> (missing ''quantityGraphUuid'' True w \<longrightarrow> fst (quantity_graph_uuid w) = Inr JNull)
   \<and> (missing ''flowGraphUuid'' True w \<longrightarrow> fst (flow_graph_uuid w) = Inr JNull)
   \<and> (missing ''rgbColor'' False w \<longrightarrow> fst (rgb_color w) = Inr JNull)
   \<and> (missing ''devUUID'' False w \<longrightarrow>
      fst (device_uuid w) =
        Inr (if truthy (memo_device_uuid w) then memo_device_uuid w else JNull))
   \<and> (missing ''devType'' True w \<longrightarrow>
      fst (device_type w) =
        Inr (if truthy (memo_device_type w) then memo_device_type w else JNull))
   \<and> (missing ''position'' True w \<longrightarrow>
      fst (zwave_index w) =
        Inr (if truthy (memo_zwave_index w) then memo_zwave_index w else JNull))
   \<and> (missing ''zwUuid'' True w \<longrightarrow>
      fst (zwave_uuid w) =
        Inr (if truthy (memo_zwave_uuid w) then memo_zwave_uuid w else JNull))
   \<and> (missing ''usageCapable'' True w \<longrightarrow>
      fst (usage_capable w) =
        Inr (case memo_usage_capable w of None \<Rightarrow> False | Some b \<Rightarrow> b))
   \<and> (missing ''usageCapable'' True w \<and> missing ''avgUsage'' False w \<longrightarrow>
      fst (average_usage w) = Inr (if memo_usage_capable w = Some True then JNull else JInt 0))
   \<and> (missing ''usageCapable'' True w \<and> missing ''currentUsage'' False w \<longrightarrow>
      fst (current_usage w) = Inr (if memo_usage_capable w = Some True then JNull else JInt 0))
   \<and> (missing ''usageCapable'' True w \<and> missing ''dayUsage'' False w \<longrightarrow>
      fst (daily_usage w) = Inr (if memo_usage_capable w = Some True then JNull else JInt 0))"
proof -
  have truth: "fst (and_then (get_value field config) (\<lambda>v. ret (if truthy v then True else False)) w)
      = Inr False" if "missing field config w" for field config
    using missing_value [OF that]
    by (simp add: and_then_def get_value_def ret_def split: sum.splits)
  have booleans:
    "missing ''isConnected'' False w \<longrightarrow> fst (is_connected w) = Inr False"
    "missing ''inSwitchAll'' True w \<longrightarrow> fst (in_switch_all_group w) = Inr False"
    "missing ''inSwitchSchedule'' True w \<longrightarrow> fst (in_switch_schedule w) = Inr False"
    "missing ''switchLocked'' True w \<longrightarrow> fst (is_locked w) = Inr False"
    unfolding is_connected_def in_switch_all_group_def in_switch_schedule_def is_locked_def
    by (simp_all add: truth)
  have raws:
    "missing ''currentState'' False w \<longrightarrow> fst (current_state w) = Inr JNull"
    "missing ''networkHealthState'' False w \<longrightarrow> fst (network_health_state w) = Inr JNull"
    "missing ''quantityGraphUuid'' True w \<longrightarrow> fst (quantity_graph_uuid w) = Inr JNull"
    "missing ''flowGraphUuid'' True w \<longrightarrow> fst (flow_graph_uuid w) = Inr JNull"
    "missing ''rgbColor'' False w \<longrightarrow> fst (rgb_color w) = Inr JNull"
    unfolding current_state_def network_health_state_def quantity_graph_uuid_def
      flow_graph_uuid_def rgb_color_def
    by (simp_all add: missing_value del: get_value_fst)
  have off: "missing ''currentState'' False w \<longrightarrow> fst (status w) = Inr ''off''"
    using missing_value [of "''currentState''" False w]
    by (simp add: status_def current_state_def and_then_def get_value_def ret_def
        split: sum.splits)
  have usage:
    "missing ''usageCapable'' True w \<and> missing ''avgUsage'' False w \<longrightarrow>
      fst (average_usage w) = Inr (if memo_usage_capable w = Some True then JNull else JInt 0)"
    "missing ''usageCapable'' True w \<and> missing ''currentUsage'' False w \<longrightarrow>
      fst (current_usage w) = Inr (if memo_usage_capable w = Some True then JNull else JInt 0)"
    "missing ''usageCapable'' True w \<and> missing ''dayUsage'' False w \<longrightarrow>
      fst (daily_usage w) = Inr (if memo_usage_capable w = Some True then JNull else JInt 0)"
    unfolding average_usage_def current_usage_def daily_usage_def
    by (simp_all add: gated_missing)
  show ?thesis
    using booleans raws off usage missing_not_connected [of w] memo_missing [of w]
      usage_capable_missing [of w]
    by blast
qed

theorem missing_data_sentinels_witness:
  "list_all (\<lambda>(field, config). missing field config (plug1 empty_snapshot))
      [(''isConnected'', False), (''currentState'', False), (''inSwitchAll'', True),
       (''inSwitchSchedule'', True), (''switchLocked'', True), (''networkHealthState'', False),
       (''quantityGraphUuid'', True), (''flowGraphUuid'', True), (''rgbColor'', False),
       (''devUUID'', False), (''devType'', True), (''position'', True), (''zwUuid'', True),
       (''usageCapable'', True), (''avgUsage'', False), (''currentUsage'', False),
       (''dayUsage'', False)]
   \<and> fst (is_connected (plug1 empty_snapshot)) = Inr False
   \<and> fst (can_toggle (plug1 empty_snapshot)) = Inr False
   \<and> fst (current_state (plug1 empty_snapshot)) = Inr JNull
   \<and> fst (status (plug1 empty_snapshot)) = Inr ''off''
   \<and> fst (in_switch_all_group (plug1 empty_snapshot)) = Inr False
   \<and> fst (in_switch_schedule (plug1 empty_snapshot)) = Inr False
   \<and> fst (is_locked (plug1 empty_snapshot)) = Inr False
   \<and> fst (network_health_state (plug1 empty_snapshot)) = Inr JNull
   \<and> fst (quantity_graph_uuid (plug1 empty_snapshot)) = Inr JNull
   \<and> fst (flow_graph_uuid (plug1 empty_snapshot)) = Inr JNull
   \<and> fst (rgb_color (plug1 empty_snapshot)) = Inr JNull
   \<and> fst (device_uuid (plug1 empty_snapshot)) = Inr JNull
   \<and> fst (device_type (plug1 empty_snapshot)) = Inr JNull
   \<and> fst (zwave_index (plug1 empty_snapshot)) = Inr JNull
   \<and> fst (zwave_uuid (plug1 empty_snapshot)) = Inr JNull
   \<and> fst (usage_capable (plug1 empty_snapshot)) = Inr False
   \<and> fst (average_usage (plug1 empty_snapshot)) = Inr (JInt 0)
   \<and> fst (current_usage (plug1 empty_snapshot)) = Inr (JInt 0)
   \<and> fst (daily_usage (plug1 empty_snapshot)) = Inr (JInt 0)"
proof -
  have gone: "missing field config (plug1 empty_snapshot)" for field config
    by (simp add: missing_def absent_in_def collection_def plug1_def new_device_def
        empty_snapshot_def)
  have memo: "memo_device_uuid (plug1 empty_snapshot) = JNull"
    "memo_device_type (plug1 empty_snapshot) = JNull"
    "memo_zwave_index (plug1 empty_snapshot) = JNull"
    "memo_zwave_uuid (plug1 empty_snapshot) = JNull"
    "memo_usage_capable (plug1 empty_snapshot) = None"
    by (simp_all add: plug1_def new_device_def)
  show ?thesis
    using missing_data_sentinels [of "plug1 empty_snapshot"]
    by (simp add: gone memo)
qed

text \<open>
  C5 as stated fails: a plug that has read its \<^verbatim>\<open>device_uuid\<close> once keeps returning it
  after the snapshot is replaced by one without any entry, where the claim expects
  \<^verbatim>\<open>None\<close>.
\<close>

theorem stale_device_uuid_counterexample:
  "missing ''devUUID'' False
     ((snd (device_uuid (plug1 (plug_snapshot True False 0 True))))\<lparr>toon_status := empty_snapshot\<rparr>)
   \<and> fst (device_uuid
          ((snd (device_uuid (plug1 (plug_snapshot True False 0 True))))\<lparr>toon_status := empty_snapshot\<rparr>))
       = Inr (JStr ''uuid-1'')"
  by (simp add: missing_def absent_in_def collection_def eval_defs)

section \<open>Lazily memoized properties\<close>

lemmas read_defs = device_uuid_def device_type_def zwave_index_def zwave_uuid_def
  usage_capable_def get_value_def and_then_def ret_def emit_def fetches_def Let_def

lemma read_keeps:
  assumes "populated p w"
  shows "populated p (snd (read q w))"
    and "memo_of p (snd (read q w)) = memo_of p w"
    and "fetched p (trace (snd (read q w))) = fetched p (trace w)"
  using assms
  by (cases p; cases q; simp add: read_defs split: sum.splits option.splits)+

lemma read_populated:
  "populated p w \<Longrightarrow> read p w = (Inr (memo_of p w), w)"
  by (cases p) (auto simp add: read_defs split: option.splits)

lemma run_keeps:
  assumes "populated p w"
  shows "populated p (run steps w)
    \<and> memo_of p (run steps w) = memo_of p w
    \<and> fetched p (trace (run steps w)) = fetched p (trace w)"
  using assms
proof (induction steps arbitrary: w)
  case Nil
  then show ?case by simp
next
  case (Cons s steps)
  show ?case
  proof (cases s)
    case (Access q)
    show ?thesis
      using Cons.IH [OF read_keeps(1) [OF Cons.prems, of q]] read_keeps(2,3) [OF Cons.prems, of q]
      by (simp add: Access)
  next
    case (Replace snapshot)
    have same: "populated p (w\<lparr>toon_status := snapshot\<rparr>)"
      "memo_of p (w\<lparr>toon_status := snapshot\<rparr>) = memo_of p w"
      using Cons.prems by (cases p; simp)+
    show ?thesis
      using Cons.IH [OF same(1)] same(2)
      by (simp add: Replace)
  qed
qed

lemma read_unset:
  "memo_of p w = JNull \<Longrightarrow> fetched p (trace (snd (read p w))) = fetched p (trace w) + 1"
  by (cases p) (auto simp add: read_defs split: sum.splits option.splits)

lemma read_populates:
  assumes "fst (read p w) = Inr v" and "truthy v \<or> p = UsageCapable"
  shows "populated p (snd (read p w)) \<and> memo_of p (snd (read p w)) = v"
  using assms
  by (cases p) (auto simp add: read_defs split: sum.splits option.splits if_splits)

text \<open>
  C4, as the code has it. Once a lazily memoized field is populated (a truthy value in
  \<^verbatim>\<open>_device_uuid\<close>, \<^verbatim>\<open>_device_type\<close>, \<^verbatim>\<open>_zwave_index\<close> or \<^verbatim>\<open>_zwave_uuid\<close>, a
  boolean in \<^verbatim>\<open>_usage_capable\<close>), no sequence of accesses and snapshot replacements
  looks it up again, and its property keeps returning the memoized value. While the memo
  attribute is \<^verbatim>\<open>None\<close>, an access looks the field up once more. An access that returns
  a truthy value (for \<^verbatim>\<open>usage_capable\<close>, any value) leaves the field populated with it.
\<close>

theorem memo_never_refetched:
  "(populated p w \<longrightarrow>
      fetched p (trace (run steps w)) = fetched p (trace w)
      \<and> fst (read p (run steps w)) = Inr (memo_of p w))
   \<and> (memo_of p w = JNull \<longrightarrow>
      fetched p (trace (snd (read p w))) = fetched p (trace w) + 1)
   \<and> (\<forall>v. fst (read p w) = Inr v \<and> (truthy v \<or> p = UsageCapable) \<longrightarrow>
      populated p (snd (read p w)) \<and> memo_of p (snd (read p w)) = v)"
proof -
  have "fst (read p (run steps w)) = Inr (memo_of p w)" if "populated p w"
    using run_keeps [OF that, of steps] read_populated [of p "run steps w"] by simp
  then show ?thesis
    using run_keeps [of p w steps] read_unset [of p w] read_populates [of p w]
    by blast
qed

theorem memo_never_refetched_witness:
  "populated DeviceUuid (snd (read DeviceUuid (plug1 (plug_snapshot True False 0 True))))
   \<and> fetched DeviceUuid
        (trace (run [Replace empty_snapshot, Access DeviceUuid, Access DeviceUuid]
           (snd (read DeviceUuid (plug1 (plug_snapshot True False 0 True)))))) = 1
   \<and> fst (read DeviceUuid
        (run [Replace empty_snapshot, Access DeviceUuid, Access DeviceUuid]
           (snd (read DeviceUuid (plug1 (plug_snapshot True False 0 True))))))
       = Inr (JStr ''uuid-1'')
   \<and> memo_of ZwaveIndex (plug1 empty_snapshot) = JNull
   \<and> fetched ZwaveIndex (trace (snd (read ZwaveIndex (plug1 empty_snapshot)))) = 1
   \<and> fst (read UsageCapable (plug1 (plug_snapshot True False 0 False))) = Inr (JBool False)
   \<and> populated UsageCapable (snd (read UsageCapable (plug1 (plug_snapshot True False 0 False))))"
proof -
  let ?w = "snd (read DeviceUuid (plug1 (plug_snapshot True False 0 True)))"
  let ?steps = "[Replace empty_snapshot, Access DeviceUuid, Access DeviceUuid]"
  have a: "populated DeviceUuid ?w" "memo_of DeviceUuid ?w = JStr ''uuid-1''"
    "fetched DeviceUuid (trace ?w) = 1"
    by (simp_all add: eval_defs fetches_def)
  have b: "memo_of ZwaveIndex (plug1 empty_snapshot) = JNull"
    "fetched ZwaveIndex (trace (plug1 empty_snapshot)) = 0"
    by (simp_all add: plug1_def new_device_def fetches_def)
  have c: "fst (read UsageCapable (plug1 (plug_snapshot True False 0 False))) = Inr (JBool False)"
    by (simp add: eval_defs)
  from a memo_never_refetched [of DeviceUuid ?w ?steps]
  have "fetched DeviceUuid (trace (run ?steps ?w)) = 1"
    "fst (read DeviceUuid (run ?steps ?w)) = Inr (JStr ''uuid-1'')"
    by simp_all
  moreover from b memo_never_refetched [of ZwaveIndex "plug1 empty_snapshot"]
  have "fetched ZwaveIndex (trace (snd (read ZwaveIndex (plug1 empty_snapshot)))) = 1"
    by simp
  moreover from c memo_never_refetched [of UsageCapable "plug1 (plug_snapshot True False 0 False)"]
  have "populated UsageCapable (snd (read UsageCapable (plug1 (plug_snapshot True False 0 False))))"
    by blast
  ultimately show ?thesis
    using a(1) b(1) c by blast
qed

text \<open>
  C4 as stated fails: a field whose lookup returns \<^verbatim>\<open>None\<close> stays unpopulated, so two
  accesses of \<^verbatim>\<open>zwave_index\<close> on a plug the snapshot does not list look it up twice.
\<close>

theorem zwave_index_refetched_counterexample:
  "fetched ZwaveIndex
     (trace (run [Access ZwaveIndex, Access ZwaveIndex] (plug1 empty_snapshot))) = 2"
  by (simp add: zwave_index_def get_value_def find_value_def plug1_def new_device_def
      empty_snapshot_def emit_def fetches_def)

end
